theory Spec2Isabelle
  imports Complex_Main
begin

section \<open>Python values, errors and the module logger\<close>

text \<open>
  The values that travel through configuration dictionaries and remote records.
  \<open>VFloat\<close> carries the numeric value of a Python float; no arithmetic is done on it.
\<close>

datatype pyval =
    VNone
  | VBool bool
  | VInt int
  | VFloat real
  | VStr string
  | VList "pyval list"
  | VDict "(string \<times> pyval) list"

text \<open>Python's truth test, as used by \<open>x or y\<close> and \<open>if x:\<close>.\<close>

fun truthy :: "pyval \<Rightarrow> bool" where
  "truthy VNone = False"
| "truthy (VBool b) = b"
| "truthy (VInt i) = (i \<noteq> 0)"
| "truthy (VFloat r) = (r \<noteq> 0)"
| "truthy (VStr s) = (s \<noteq> [])"
| "truthy (VList vs) = (vs \<noteq> [])"
| "truthy (VDict kvs) = (kvs \<noteq> [])"

text \<open>
  \<open>if id:\<close> on an \<open>Optional[str]\<close>: both \<open>None\<close> and the empty string are falsy.
\<close>

fun truthy_id :: "string option \<Rightarrow> bool" where
  "truthy_id None = False"
| "truthy_id (Some s) = (s \<noteq> [])"

datatype integrity_kind = UniqueConstraint | NotNullConstraint

datatype error =
    ProlificException
  | IntegrityError integrity_kind
  | IndexError
  | AssertionError
  | TypeError
  | AttributeError
  | OverflowError

datatype log_level = LDebug | LWarning | LException

type_synonym log_entry = "log_level \<times> string"

section \<open>The Surge AI datastore\<close>

text \<open>
  The five tables of \<open>surge_ai_datastore.py\<close>. A flag table row is the key and the
  stored BOOLEAN, which SQLite keeps as an integer (\<open>False\<close> is written as 0).
  Tables are row lists in insertion order; the PRIMARY KEY UNIQUE constraint is
  enforced by the insert operations below.
\<close>

record qualification_row =
  q_qualification_name :: string
  q_requester_id :: string
  q_surge_ai_qualification_name :: string
  q_surge_ai_qualification_id :: string
  q_creation_date :: nat

record run_row =
  r_run_id :: string
  r_arn_id :: string
  r_project_id :: string
  r_project_config_path :: string
  r_creation_date :: nat
  r_frame_height :: int

record datastore =
  requesters :: "(string \<times> int) list"
  units :: "(string \<times> int) list"
  workers :: "(string \<times> int) list"
  qualifications :: "qualification_row list"
  runs :: "run_row list"
  ds_log :: "log_entry list"

text \<open>\<open>init_tables\<close> on a new database file: every table exists and is empty.\<close>

definition init_tables :: datastore where
  "init_tables =
     \<lparr>requesters = [], units = [], workers = [], qualifications = [], runs = [],
      ds_log = []\<rparr>"

subsection \<open>SQL statements on a flag table\<close>

text \<open>\<open>INSERT OR IGNORE INTO t(key, flag) VALUES (?, ?)\<close>\<close>

definition insert_or_ignore :: "(string \<times> int) list \<Rightarrow> string \<Rightarrow> int \<Rightarrow> (string \<times> int) list" where
  "insert_or_ignore t k v = (if k \<in> fst ` set t then t else t @ [(k, v)])"

text \<open>\<open>UPDATE t SET flag = ? WHERE key = ?\<close>\<close>

definition update_flag :: "(string \<times> int) list \<Rightarrow> int \<Rightarrow> string \<Rightarrow> (string \<times> int) list" where
  "update_flag t v k = map (\<lambda>row. if fst row = k then (k, v) else row) t"

text \<open>\<open>SELECT flag from t WHERE key = ?\<close> followed by \<open>fetchall()\<close>\<close>

definition select_flag :: "(string \<times> int) list \<Rightarrow> string \<Rightarrow> int list" where
  "select_flag t k = map snd (filter (\<lambda>row. fst row = k) t)"

text \<open>\<open>bool(results[0][flag])\<close>: an empty result list raises IndexError.\<close>

definition first_flag :: "int list \<Rightarrow> error + bool" where
  "first_flag results = (case results of [] \<Rightarrow> Inl IndexError | v # _ \<Rightarrow> Inr (v \<noteq> 0))"

definition of_pybool :: "bool \<Rightarrow> int" where
  "of_pybool b = (if b then 1 else 0)"

subsection \<open>Requesters\<close>

definition ensure_requester_exists :: "datastore \<Rightarrow> string \<Rightarrow> datastore" where
  "ensure_requester_exists ds requester_id =
     ds\<lparr>requesters := insert_or_ignore (requesters ds) requester_id (of_pybool False)\<rparr>"

definition set_requester_registered :: "datastore \<Rightarrow> string \<Rightarrow> bool \<Rightarrow> datastore" where
  "set_requester_registered ds requester_id val =
     (let ds1 = ensure_requester_exists ds requester_id
      in ds1\<lparr>requesters := update_flag (requesters ds1) (of_pybool val) requester_id\<rparr>)"

definition get_requester_registered :: "datastore \<Rightarrow> string \<Rightarrow> (error + bool) \<times> datastore" where
  "get_requester_registered ds requester_id =
     (let ds1 = ensure_requester_exists ds requester_id
      in (first_flag (select_flag (requesters ds1) requester_id), ds1))"

subsection \<open>Workers\<close>

definition ensure_worker_exists :: "datastore \<Rightarrow> string \<Rightarrow> datastore" where
  "ensure_worker_exists ds worker_id =
     ds\<lparr>workers := insert_or_ignore (workers ds) worker_id (of_pybool False)\<rparr>"

definition set_worker_blocked :: "datastore \<Rightarrow> string \<Rightarrow> bool \<Rightarrow> datastore" where
  "set_worker_blocked ds worker_id val =
     (let ds1 = ensure_worker_exists ds worker_id
      in ds1\<lparr>workers := update_flag (workers ds1) (of_pybool val) worker_id\<rparr>)"

definition get_worker_blocked :: "datastore \<Rightarrow> string \<Rightarrow> (error + bool) \<times> datastore" where
  "get_worker_blocked ds worker_id =
     (let ds1 = ensure_worker_exists ds worker_id
      in (first_flag (select_flag (workers ds1) worker_id), ds1))"

subsection \<open>Units\<close>

definition ensure_unit_exists :: "datastore \<Rightarrow> string \<Rightarrow> datastore" where
  "ensure_unit_exists ds unit_id =
     ds\<lparr>units := insert_or_ignore (units ds) unit_id (of_pybool False)\<rparr>"

definition set_unit_expired :: "datastore \<Rightarrow> string \<Rightarrow> bool \<Rightarrow> datastore" where
  "set_unit_expired ds unit_id val =
     (let ds1 = ensure_unit_exists ds unit_id
      in ds1\<lparr>units := update_flag (units ds1) (of_pybool val) unit_id\<rparr>)"

definition get_unit_expired :: "datastore \<Rightarrow> string \<Rightarrow> (error + bool) \<times> datastore" where
  "get_unit_expired ds unit_id =
     (let ds1 = ensure_unit_exists ds unit_id
      in (first_flag (select_flag (units ds1) unit_id), ds1))"

subsection \<open>Qualification mappings\<close>

text \<open>
  \<open>INSERT INTO qualifications(...) VALUES (?, ?, ?, ?)\<close>. The statement fails with a
  uniqueness IntegrityError when a row with the same \<open>qualification_name\<close> is stored;
  \<open>creation_date\<close> takes CURRENT_TIMESTAMP, passed here as \<open>now\<close>.
\<close>

definition insert_qualification ::
  "qualification_row list \<Rightarrow> string \<Rightarrow> string \<Rightarrow> string \<Rightarrow> string \<Rightarrow> nat
     \<Rightarrow> error + qualification_row list" where
  "insert_qualification t qualification_name requester_id surge_ai_qualification_name
       surge_ai_qualification_id now =
     (if qualification_name \<in> q_qualification_name ` set t
      then Inl (IntegrityError UniqueConstraint)
      else Inr (t @ [\<lparr>q_qualification_name = qualification_name,
                       q_requester_id = requester_id,
                       q_surge_ai_qualification_name = surge_ai_qualification_name,
                       q_surge_ai_qualification_id = surge_ai_qualification_id,
                       q_creation_date = now\<rparr>]))"

text \<open>
  Modelled from the spec: \<open>is_unique_failure\<close> lives in
  \<open>mephisto.abstractions.databases.local_database\<close>, which is not among the sources.
  The spec's "on a uniqueness violation (same name already mapped)" is taken as: it
  holds exactly of the IntegrityError that a violated uniqueness constraint raises.
\<close>

fun is_unique_failure :: "error \<Rightarrow> bool" where
  "is_unique_failure (IntegrityError UniqueConstraint) = True"
| "is_unique_failure _ = False"

definition get_qualification_mapping :: "datastore \<Rightarrow> string \<Rightarrow> qualification_row option" where
  "get_qualification_mapping ds qualification_name =
     (case filter (\<lambda>row. q_qualification_name row = qualification_name) (qualifications ds) of
        [] \<Rightarrow> None
      | row # _ \<Rightarrow> Some row)"

definition log_to :: "datastore \<Rightarrow> log_level \<Rightarrow> string \<Rightarrow> datastore" where
  "log_to ds lvl msg = ds\<lparr>ds_log := ds_log ds @ [(lvl, msg)]\<rparr>"

text \<open>
  The two conditional warnings of the conflict branch. In the debug message the text
  that Python prints for the row object is written \<open><Row>\<close>.
\<close>

definition warn_requester :: "datastore \<Rightarrow> string \<Rightarrow> string \<Rightarrow> string \<Rightarrow> datastore" where
  "warn_requester ds qualification_name requester_id cur_requester_id =
     (if cur_requester_id \<noteq> requester_id
      then log_to ds LWarning
             (''Surge AI Qualification mapping create for '' @ qualification_name @
              '' under requester '' @ requester_id @
              '', already exists under '' @ cur_requester_id @ ''.'')
      else ds)"

definition warn_remote_name :: "datastore \<Rightarrow> string \<Rightarrow> string \<Rightarrow> string \<Rightarrow> datastore" where
  "warn_remote_name ds qualification_name surge_ai_qualification_name
       cur_surge_ai_qualification_name =
     (if cur_surge_ai_qualification_name \<noteq> surge_ai_qualification_name
      then log_to ds LWarning
             (''Surge AI Qualification mapping create for '' @ qualification_name @
              '' with Surge AI name '' @ surge_ai_qualification_name @
              '', already exists under '' @ cur_surge_ai_qualification_name @ ''.'')
      else ds)"

definition create_qualification_mapping ::
  "datastore \<Rightarrow> string \<Rightarrow> string \<Rightarrow> string \<Rightarrow> string \<Rightarrow> nat \<Rightarrow> (error + unit) \<times> datastore" where
  "create_qualification_mapping ds qualification_name requester_id
       surge_ai_qualification_name surge_ai_qualification_id now =
     (case insert_qualification (qualifications ds) qualification_name requester_id
             surge_ai_qualification_name surge_ai_qualification_id now of
        Inr t \<Rightarrow> (Inr (), ds\<lparr>qualifications := t\<rparr>)
      | Inl e \<Rightarrow>
          (if is_unique_failure e then
             (let qual = get_qualification_mapping ds qualification_name;
                  ds1 = log_to ds LDebug
                          (''Multiple Surge AI mapping creations for qualification '' @
                           qualification_name @ ''. Found existing one: <Row>. '')
              in case qual of
                   None \<Rightarrow> (Inl AssertionError, ds1)
                 | Some row \<Rightarrow>
                     (let ds2 = warn_requester ds1 qualification_name requester_id
                                  (q_requester_id row);
                          ds3 = warn_remote_name ds2 qualification_name
                                  surge_ai_qualification_name
                                  (q_surge_ai_qualification_name row)
                      in (Inr (), ds3)))
           else (Inl e, ds)))"

subsection \<open>Runs\<close>

text \<open>
  A Python int is bound to a statement parameter as a 64-bit SQLite INTEGER; outside
  the signed 64-bit range the binding raises OverflowError before the statement runs.
\<close>

definition fits_sqlite_integer :: "int \<Rightarrow> bool" where
  "fits_sqlite_integer i = (- (2 ^ 63) \<le> i \<and> i < 2 ^ 63)"

text \<open>
  \<open>INSERT INTO runs(...) VALUES (?, ?, ?, ?, ?)\<close> inside \<open>with ... as conn\<close>: the
  connection commits when the block ends normally and rolls back when it raises, and
  neither the binding error nor the uniqueness error is caught.
\<close>

definition register_run ::
  "datastore \<Rightarrow> string \<Rightarrow> string \<Rightarrow> string \<Rightarrow> int \<Rightarrow> nat \<Rightarrow> (error + unit) \<times> datastore" where
  "register_run ds run_id project_id project_config_path frame_height now =
     (if \<not> fits_sqlite_integer frame_height then (Inl OverflowError, ds)
      else if run_id \<in> r_run_id ` set (runs ds)
      then (Inl (IntegrityError UniqueConstraint), ds)
      else (Inr (),
            ds\<lparr>runs := runs ds @ [\<lparr>r_run_id = run_id, r_arn_id = ''unused'',
                                   r_project_id = project_id,
                                   r_project_config_path = project_config_path,
                                   r_creation_date = now,
                                   r_frame_height = frame_height\<rparr>]\<rparr>))"

text \<open>The warnings a datastore has logged, and the rows stored under a run id.\<close>

definition warnings :: "datastore \<Rightarrow> log_entry list" where
  "warnings ds = filter (\<lambda>entry. fst entry = LWarning) (ds_log ds)"

definition runs_with_id :: "datastore \<Rightarrow> string \<Rightarrow> run_row list" where
  "runs_with_id ds run_id = filter (\<lambda>row. r_run_id row = run_id) (runs ds)"

definition qualification_row_of ::
  "string \<Rightarrow> string \<Rightarrow> string \<Rightarrow> string \<Rightarrow> nat \<Rightarrow> qualification_row" where
  "qualification_row_of qualification_name requester_id surge_ai_qualification_name
       surge_ai_qualification_id now =
     \<lparr>q_qualification_name = qualification_name, q_requester_id = requester_id,
      q_surge_ai_qualification_name = surge_ai_qualification_name,
      q_surge_ai_qualification_id = surge_ai_qualification_id, q_creation_date = now\<rparr>"

definition mappings_named :: "datastore \<Rightarrow> string \<Rightarrow> qualification_row list" where
  "mappings_named ds qualification_name =
     filter (\<lambda>row. q_qualification_name row = qualification_name) (qualifications ds)"

section \<open>The Prolific remote directory\<close>

record workspace =
  ws_id :: string
  ws_title :: string

record project =
  pj_id :: string
  pj_title :: string
  pj_workspace :: string

record participant_group =
  pg_id :: string
  pg_name :: string
  pg_project_id :: string

record user =
  available_balance :: pyval

text \<open>
  The members of \<open>api.constants\<close> that \<open>prolific_utils.py\<close> names. The module is not
  among the sources; any other member of an enumeration is kept as its name.
\<close>

datatype study_code_type = OTHER | Code_type_member string

datatype study_action = AUTOMATICALLY_APPROVE | Action_member string

datatype study_completion_option = CODE | Completion_option_member string

record completion_action =
  ca_action :: study_action

record completion_code =
  cc_code :: string
  cc_code_type :: study_code_type
  cc_actions :: "completion_action list"

text \<open>The keyword arguments of \<open>client.Studies.create\<close>.\<close>

record study_request =
  sr_project :: string
  sr_name :: string
  sr_internal_name :: string
  sr_description :: string
  sr_external_study_url :: string
  sr_prolific_id_option :: string
  sr_completion_option :: study_completion_option
  sr_completion_codes :: "completion_code list"
  sr_total_available_places :: int
  sr_estimated_completion_time :: int
  sr_reward :: pyval
  sr_eligibility_requirements :: "pyval list"

record study =
  st_id :: string
  st_request :: study_request

datatype api_call =
    Users_me
  | Workspaces_retrieve string
  | Workspaces_list
  | Workspaces_create string
  | Projects_list_for_workspace string
  | Projects_create_for_workspace string string
  | ParticipantGroups_list string
  | ParticipantGroups_create string string
  | Studies_create study_request

text \<open>
  Modelled from the spec: the Remote Directory Client (the package \<open>.api\<close>) is an
  external collaborator and not among the sources. Per resource kind it exposes list,
  retrieve and create, "each raising a single uniform error type on any failure
  (network, auth, validation, not-found via retrieve)". The client state holds the
  remote resources, the requests issued so far, and two parameters of the remote side:
  \<open>c_fails n call\<close> says whether the request \<open>call\<close>, issued as request number \<open>n\<close>,
  is refused, and \<open>c_mint n\<close> is the id the remote assigns to a resource created by
  request number \<open>n\<close>. \<open>c_log\<close> collects what the module logger is given.
\<close>

record client =
  c_user :: user
  c_workspaces :: "workspace list"
  c_projects :: "project list"
  c_participant_groups :: "participant_group list"
  c_studies :: "study list"
  c_fails :: "nat \<Rightarrow> api_call \<Rightarrow> bool"
  c_mint :: "nat \<Rightarrow> string"
  c_calls :: "api_call list"
  c_log :: "log_entry list"

definition request :: "client \<Rightarrow> api_call \<Rightarrow> bool \<times> client" where
  "request c call =
     (c_fails c (length (c_calls c)) call, c\<lparr>c_calls := c_calls c @ [call]\<rparr>)"

definition Users_me_call :: "client \<Rightarrow> (error + user) \<times> client" where
  "Users_me_call c =
     (case request c Users_me of
        (True, c1) \<Rightarrow> (Inl ProlificException, c1)
      | (False, c1) \<Rightarrow> (Inr (c_user c1), c1))"

definition Workspaces_retrieve_call :: "client \<Rightarrow> string \<Rightarrow> (error + workspace) \<times> client" where
  "Workspaces_retrieve_call c ident =
     (case request c (Workspaces_retrieve ident) of
        (True, c1) \<Rightarrow> (Inl ProlificException, c1)
      | (False, c1) \<Rightarrow>
          (case List.find (\<lambda>w. ws_id w = ident) (c_workspaces c1) of
             None \<Rightarrow> (Inl ProlificException, c1)
           | Some w \<Rightarrow> (Inr w, c1)))"

definition Workspaces_list_call :: "client \<Rightarrow> (error + workspace list) \<times> client" where
  "Workspaces_list_call c =
     (case request c Workspaces_list of
        (True, c1) \<Rightarrow> (Inl ProlificException, c1)
      | (False, c1) \<Rightarrow> (Inr (c_workspaces c1), c1))"

definition Workspaces_create_call :: "client \<Rightarrow> string \<Rightarrow> (error + workspace) \<times> client" where
  "Workspaces_create_call c title =
     (case request c (Workspaces_create title) of
        (True, c1) \<Rightarrow> (Inl ProlificException, c1)
      | (False, c1) \<Rightarrow>
          (let w = \<lparr>ws_id = c_mint c (length (c_calls c)), ws_title = title\<rparr>
           in (Inr w, c1\<lparr>c_workspaces := c_workspaces c1 @ [w]\<rparr>)))"

definition Projects_list_for_workspace_call ::
  "client \<Rightarrow> string \<Rightarrow> (error + project list) \<times> client" where
  "Projects_list_for_workspace_call c workspace_id =
     (case request c (Projects_list_for_workspace workspace_id) of
        (True, c1) \<Rightarrow> (Inl ProlificException, c1)
      | (False, c1) \<Rightarrow>
          (Inr (filter (\<lambda>p. pj_workspace p = workspace_id) (c_projects c1)), c1))"

definition Projects_create_for_workspace_call ::
  "client \<Rightarrow> string \<Rightarrow> string \<Rightarrow> (error + project) \<times> client" where
  "Projects_create_for_workspace_call c workspace_id title =
     (case request c (Projects_create_for_workspace workspace_id title) of
        (True, c1) \<Rightarrow> (Inl ProlificException, c1)
      | (False, c1) \<Rightarrow>
          (let p = \<lparr>pj_id = c_mint c (length (c_calls c)), pj_title = title,
                    pj_workspace = workspace_id\<rparr>
           in (Inr p, c1\<lparr>c_projects := c_projects c1 @ [p]\<rparr>)))"

definition ParticipantGroups_list_call ::
  "client \<Rightarrow> string \<Rightarrow> (error + participant_group list) \<times> client" where
  "ParticipantGroups_list_call c project_id =
     (case request c (ParticipantGroups_list project_id) of
        (True, c1) \<Rightarrow> (Inl ProlificException, c1)
      | (False, c1) \<Rightarrow>
          (Inr (filter (\<lambda>g. pg_project_id g = project_id) (c_participant_groups c1)), c1))"

definition ParticipantGroups_create_call ::
  "client \<Rightarrow> string \<Rightarrow> string \<Rightarrow> (error + participant_group) \<times> client" where
  "ParticipantGroups_create_call c project_id name =
     (case request c (ParticipantGroups_create project_id name) of
        (True, c1) \<Rightarrow> (Inl ProlificException, c1)
      | (False, c1) \<Rightarrow>
          (let g = \<lparr>pg_id = c_mint c (length (c_calls c)), pg_name = name,
                    pg_project_id = project_id\<rparr>
           in (Inr g, c1\<lparr>c_participant_groups := c_participant_groups c1 @ [g]\<rparr>)))"

definition Studies_create_call :: "client \<Rightarrow> study_request \<Rightarrow> (error + study) \<times> client" where
  "Studies_create_call c req =
     (case request c (Studies_create req) of
        (True, c1) \<Rightarrow> (Inl ProlificException, c1)
      | (False, c1) \<Rightarrow>
          (let s = \<lparr>st_id = c_mint c (length (c_calls c)), st_request = req\<rparr>
           in (Inr s, c1\<lparr>c_studies := c_studies c1 @ [s]\<rparr>)))"

text \<open>
  \<open>except ProlificException: logger.exception(msg); raise\<close>: the message is logged when
  the error is a ProlificException, and the error propagates either way.
\<close>

definition log_and_raise :: "error \<Rightarrow> client \<Rightarrow> string \<Rightarrow> (error + 'a) \<times> client" where
  "log_and_raise e c msg =
     (Inl e, if e = ProlificException then c\<lparr>c_log := c_log c @ [(LException, msg)]\<rparr> else c)"

section \<open>Prolific utilities\<close>

definition DEFAULT_PROLIFIC_BUDGET :: real where
  "DEFAULT_PROLIFIC_BUDGET = 100000"

definition DEFAULT_PROLIFIC_WORKSPACE_NAME :: string where
  "DEFAULT_PROLIFIC_WORKSPACE_NAME = ''My Workspace''"

definition DEFAULT_PROLIFIC_PROJECT_NAME :: string where
  "DEFAULT_PROLIFIC_PROJECT_NAME = ''Project''"

subsection \<open>Eligibility requirements\<close>

text \<open>
  The module \<open>eligibility_requirement_classes\<close> is not among the sources. A class of
  the module that offers \<open>params()\<close> is kept as the list \<open>params()\<close> returns and as
  \<open>er_build\<close> for \<open>cls(**kwargs).to_prolific_dict()\<close>, which may raise.
\<close>

type_synonym pydict = "string \<rightharpoonup> pyval"

record er_class =
  er_params :: "string list"
  er_build :: "pydict \<Rightarrow> error + pyval"

text \<open>
  What \<open>getattr\<close> can find on the module: a class with \<open>params()\<close>, a plain value
  (a string, \<open>None\<close>, a dictionary, ...), or any other object (a function, a method, a
  class without \<open>params\<close>), which is truthy and has no attribute \<open>params\<close>.
\<close>

datatype attribute =
    Requirement_class er_class
  | Plain_value pyval
  | Plain_object

text \<open>Classes are truthy; a plain value has the truth value of the value.\<close>

fun attribute_truthy :: "attribute \<Rightarrow> bool" where
  "attribute_truthy (Requirement_class cls) = True"
| "attribute_truthy (Plain_value v) = truthy v"
| "attribute_truthy Plain_object = True"

text \<open>
  The names the module's own code binds (its classes, its imports, its docstring) are
  the parameter \<open>registry\<close>. Every module object carries in addition its \<open>__name__\<close>,
  here the import path of the module, and the attributes of the module type.
\<close>

type_synonym registry = "string \<Rightarrow> attribute option"

definition ELIGIBILITY_MODULE_NAME :: string where
  "ELIGIBILITY_MODULE_NAME =
     ''mephisto.abstractions.providers.prolific.api.eligibility_requirement_classes''"

definition MODULE_OBJECT_ATTRIBUTES :: "string list" where
  "MODULE_OBJECT_ATTRIBUTES =
     [''__class__'', ''__delattr__'', ''__dict__'', ''__dir__'', ''__eq__'', ''__format__'',
      ''__ge__'', ''__getattribute__'', ''__gt__'', ''__hash__'', ''__init__'',
      ''__init_subclass__'', ''__le__'', ''__lt__'', ''__ne__'', ''__new__'', ''__reduce__'',
      ''__reduce_ex__'', ''__repr__'', ''__setattr__'', ''__sizeof__'', ''__str__'',
      ''__subclasshook__'']"

definition module_getattr :: "registry \<Rightarrow> string \<Rightarrow> attribute option" where
  "module_getattr reg s =
     (if s = ''__name__'' then Some (Plain_value (VStr ELIGIBILITY_MODULE_NAME))
      else if s \<in> set MODULE_OBJECT_ATTRIBUTES then Some Plain_object
      else reg s)"

text \<open>\<open>d.get(k)\<close>: a missing key reads as \<open>None\<close>.\<close>

definition dict_get :: "pydict \<Rightarrow> string \<Rightarrow> pyval" where
  "dict_get d k = (case d k of None \<Rightarrow> VNone | Some v \<Rightarrow> v)"

text \<open>
  \<open>getattr(eligibility_requirement_classes, name, None)\<close>: an attribute name that is
  not a string raises TypeError; a string that names no attribute gives the default
  \<open>None\<close>, written \<open>Inr None\<close>.
\<close>

fun getattr_or_none :: "registry \<Rightarrow> pyval \<Rightarrow> error + attribute option" where
  "getattr_or_none reg (VStr s) = Inr (module_getattr reg s)"
| "getattr_or_none reg _ = Inl TypeError"

text \<open>
  \<open>cls.params()\<close> on what the walrus test let through: only a class with \<open>params\<close>
  answers; on anything else the attribute lookup raises AttributeError.
\<close>

fun params_of :: "attribute \<Rightarrow> error + er_class" where
  "params_of (Requirement_class cls) = Inr cls"
| "params_of _ = Inl AttributeError"

text \<open>The inner loop over \<open>cls.params()\<close>, filling \<open>cls_kwargs\<close>.\<close>

fun collect_kwargs :: "string list \<Rightarrow> pydict \<Rightarrow> pydict \<Rightarrow> pydict" where
  "collect_kwargs [] conf cls_kwargs = cls_kwargs"
| "collect_kwargs (param_name # rest) conf cls_kwargs =
     collect_kwargs rest conf
       (case conf param_name of
          Some v \<Rightarrow> cls_kwargs(param_name \<mapsto> v)
        | None \<Rightarrow> cls_kwargs)"

text \<open>The outer loop, with the list \<open>eligibility_requirements\<close> built so far.\<close>

fun eligibility_loop :: "registry \<Rightarrow> pydict list \<Rightarrow> pyval list \<Rightarrow> error + pyval list" where
  "eligibility_loop reg [] eligibility_requirements = Inr eligibility_requirements"
| "eligibility_loop reg (conf # rest) eligibility_requirements =
     (case getattr_or_none reg (dict_get conf ''name'') of
        Inl e \<Rightarrow> Inl e
      | Inr None \<Rightarrow> eligibility_loop reg rest eligibility_requirements
      | Inr (Some a) \<Rightarrow>
          (if attribute_truthy a then
             (case params_of a of
                Inl e \<Rightarrow> Inl e
              | Inr cls \<Rightarrow>
                  (case er_build cls (collect_kwargs (er_params cls) conf Map.empty) of
                     Inl e \<Rightarrow> Inl e
                   | Inr d \<Rightarrow> eligibility_loop reg rest (eligibility_requirements @ [d])))
           else eligibility_loop reg rest eligibility_requirements))"

definition get_eligibility_requirements :: "registry \<Rightarrow> pydict list \<Rightarrow> error + pyval list" where
  "get_eligibility_requirements reg run_config_value = eligibility_loop reg run_config_value []"

subsection \<open>Balance\<close>

definition check_balance :: "client \<Rightarrow> (error + pyval) \<times> client" where
  "check_balance c =
     (case Users_me_call c of
        (Inl e, c1) \<Rightarrow> log_and_raise e c1 ''Could not receive a User Accound data''
      | (Inr u, c1) \<Rightarrow>
          (Inr (if truthy (available_balance u) then available_balance u
                else VFloat DEFAULT_PROLIFIC_BUDGET), c1))"

subsection \<open>Workspaces\<close>

text \<open>The loop over the listed workspaces and the return that follows it.\<close>

fun scan_workspaces :: "workspace list \<Rightarrow> string \<Rightarrow> bool \<times> string option" where
  "scan_workspaces [] title = (True, None)"
| "scan_workspaces (w # rest) title =
     (if ws_title w = title then (True, Some (ws_id w)) else scan_workspaces rest title)"

definition find_prolific_workspace ::
  "client \<Rightarrow> string option \<Rightarrow> string \<Rightarrow> (error + bool \<times> string option) \<times> client" where
  "find_prolific_workspace c ident title =
     (if truthy_id ident then
        (case Workspaces_retrieve_call c (case ident of Some i \<Rightarrow> i | None \<Rightarrow> []) of
           (Inr w, c1) \<Rightarrow> (Inr (True, Some (ws_id w)), c1)
         | (Inl e, c1) \<Rightarrow>
             log_and_raise e c1
               (''Could not find a workspace by id '' @ (case ident of Some i \<Rightarrow> i | None \<Rightarrow> [])))
      else
        (case Workspaces_list_call c of
           (Inl e, c1) \<Rightarrow> log_and_raise e c1 (''Could not find a workspace by title '' @ title)
         | (Inr ws, c1) \<Rightarrow> (Inr (scan_workspaces ws title), c1)))"

text \<open>
  A resource object is truthy, so \<open>x.id if x else None\<close> after a create is \<open>x.id\<close>.
\<close>

definition find_or_create_prolific_workspace ::
  "client \<Rightarrow> string option \<Rightarrow> string \<Rightarrow> (error + string option) \<times> client" where
  "find_or_create_prolific_workspace c ident title =
     (case find_prolific_workspace c ident title of
        (Inl e, c1) \<Rightarrow> (Inl e, c1)
      | (Inr (found_workspace, workspace_id), c1) \<Rightarrow>
          (if found_workspace then (Inr workspace_id, c1)
           else
             (case Workspaces_create_call c1 title of
                (Inl e, c2) \<Rightarrow>
                  log_and_raise e c2
                    (''Could not create a workspace with title '' @ [CHR 0x22] @ title @ [CHR 0x22])
              | (Inr w, c2) \<Rightarrow> (Inr (Some (ws_id w)), c2))))"

subsection \<open>Projects\<close>

fun scan_projects :: "project list \<Rightarrow> string option \<Rightarrow> string \<Rightarrow> bool \<times> string option" where
  "scan_projects [] ident title = (False, None)"
| "scan_projects (p # rest) ident title =
     (if truthy_id ident \<and> Some (pj_id p) = ident then (True, Some (pj_id p))
      else if pj_title p = title then (True, Some (pj_id p))
      else scan_projects rest ident title)"

definition find_prolific_project ::
  "client \<Rightarrow> string \<Rightarrow> string option \<Rightarrow> string \<Rightarrow> (error + bool \<times> string option) \<times> client" where
  "find_prolific_project c workspace_id ident title =
     (case Projects_list_for_workspace_call c workspace_id of
        (Inl e, c1) \<Rightarrow>
          log_and_raise e c1
            (''Could not get projects for worspace '' @ [CHR 0x22] @ workspace_id @ [CHR 0x22])
      | (Inr ps, c1) \<Rightarrow> (Inr (scan_projects ps ident title), c1))"

definition find_or_create_prolific_project ::
  "client \<Rightarrow> string \<Rightarrow> string option \<Rightarrow> string \<Rightarrow> (error + string option) \<times> client" where
  "find_or_create_prolific_project c workspace_id ident title =
     (case find_prolific_project c workspace_id ident title of
        (Inl e, c1) \<Rightarrow> (Inl e, c1)
      | (Inr (found_project, project_id), c1) \<Rightarrow>
          (if found_project then (Inr project_id, c1)
           else
             (case Projects_create_for_workspace_call c1 workspace_id title of
                (Inl e, c2) \<Rightarrow>
                  log_and_raise e c2
                    (''Could not create a project with title '' @ [CHR 0x22] @ title @ [CHR 0x22])
              | (Inr p, c2) \<Rightarrow> (Inr (Some (pj_id p)), c2))))"

subsection \<open>Qualifications\<close>

definition delete_qualification :: "client \<Rightarrow> string \<Rightarrow> bool \<times> client" where
  "delete_qualification c ident = (True, c)"

fun scan_qualifications :: "participant_group list \<Rightarrow> string \<Rightarrow> bool \<times> string option" where
  "scan_qualifications [] qualification_name = (True, None)"
| "scan_qualifications (g # rest) qualification_name =
     (if pg_name g = qualification_name then (True, Some (pg_id g))
      else scan_qualifications rest qualification_name)"

definition find_qualification ::
  "client \<Rightarrow> string \<Rightarrow> string \<Rightarrow> (error + bool \<times> string option) \<times> client" where
  "find_qualification c prolific_project_id qualification_name =
     (case ParticipantGroups_list_call c prolific_project_id of
        (Inl e, c1) \<Rightarrow>
          log_and_raise e c1
            (''Could not receive a qualifications for project '' @ [CHR 0x22] @
             prolific_project_id @ [CHR 0x22])
      | (Inr gs, c1) \<Rightarrow> (Inr (scan_qualifications gs qualification_name), c1))"

definition find_or_create_qualification ::
  "client \<Rightarrow> string \<Rightarrow> string \<Rightarrow> (error + string option) \<times> client" where
  "find_or_create_qualification c prolific_project_id qualification_name =
     (case find_qualification c prolific_project_id qualification_name of
        (Inl e, c1) \<Rightarrow> (Inl e, c1)
      | (Inr (found_qualification, qualification_id), c1) \<Rightarrow>
          (if found_qualification then (Inr qualification_id, c1)
           else
             (case ParticipantGroups_create_call c1 prolific_project_id qualification_name of
                (Inl e, c2) \<Rightarrow>
                  log_and_raise e c2
                    (''Could not create a qualification for project '' @ [CHR 0x22] @
                     prolific_project_id @ [CHR 0x22] @ '' with name '' @ [CHR 0x22] @
                     qualification_name @ [CHR 0x22])
              | (Inr g, c2) \<Rightarrow> (Inr (Some (pg_id g)), c2))))"

subsection \<open>Studies\<close>

record task_args =
  task_title :: string
  task_description :: string
  task_reward :: pyval

record provider_args =
  prolific_total_available_places :: int
  prolific_estimated_completion_time_in_minutes :: int
  prolific_external_study_url :: string
  prolific_id_option :: string
  prolific_eligibility_requirements :: "pydict list"

record run_config =
  task :: task_args
  provider :: provider_args

definition completion_codes :: "completion_code list" where
  "completion_codes =
     [\<lparr>cc_code = ''ABC123'', cc_code_type = OTHER,
       cc_actions = [\<lparr>ca_action = AUTOMATICALLY_APPROVE\<rparr>]\<rparr>]"

definition create_task ::
  "registry \<Rightarrow> client \<Rightarrow> run_config \<Rightarrow> string \<Rightarrow> (error + string) \<times> client" where
  "create_task reg c cfg prolific_project_id =
     (let name = task_title (task cfg);
          description = task_description (task cfg);
          reward = task_reward (task cfg);
          total_available_places = prolific_total_available_places (provider cfg);
          estimated_completion_time_in_minutes =
            prolific_estimated_completion_time_in_minutes (provider cfg);
          external_study_url = prolific_external_study_url (provider cfg);
          id_option = prolific_id_option (provider cfg)
      in case get_eligibility_requirements reg
                (prolific_eligibility_requirements (provider cfg)) of
           Inl e \<Rightarrow> (Inl e, c)
         | Inr eligibility_requirements \<Rightarrow>
             (case Studies_create_call c
                     \<lparr>sr_project = prolific_project_id,
                      sr_name = name,
                      sr_internal_name = name,
                      sr_description = description,
                      sr_external_study_url = external_study_url,
                      sr_prolific_id_option = id_option,
                      sr_completion_option = CODE,
                      sr_completion_codes = completion_codes,
                      sr_total_available_places = total_available_places,
                      sr_estimated_completion_time = estimated_completion_time_in_minutes,
                      sr_reward = reward,
                      sr_eligibility_requirements = eligibility_requirements\<rparr> of
                (Inl e, c1) \<Rightarrow>
                  log_and_raise e c1
                    (''Could not create a Study with name '' @ [CHR 0x22] @ name @ [CHR 0x22] @
                     '' and instructions '' @ [CHR 0x22] @ description @ [CHR 0x22])
              | (Inr s, c1) \<Rightarrow> (Inr (st_id s), c1)))"

subsection \<open>Concrete remote states\<close>

text \<open>
  A remote that refuses no request and numbers the ids it assigns, with the given
  workspaces, projects and participant groups, and a user with the given balance.
\<close>

definition remote_with ::
  "pyval \<Rightarrow> workspace list \<Rightarrow> project list \<Rightarrow> participant_group list \<Rightarrow> client" where
  "remote_with bal ws ps gs =
     \<lparr>c_user = \<lparr>available_balance = bal\<rparr>, c_workspaces = ws, c_projects = ps,
      c_participant_groups = gs, c_studies = [],
      c_fails = (\<lambda>n call. False),
      c_mint = (\<lambda>n. ''id-'' @ replicate n (CHR ''i'')),
      c_calls = [], c_log = []\<rparr>"

subsection \<open>Entries and the classes they select\<close>

text \<open>
  The name of an entry when it is a string, and the class that name selects: the
  attribute of the module under that name, when it is a class with \<open>params()\<close>.
\<close>

definition entry_name :: "pydict \<Rightarrow> string option" where
  "entry_name conf = (case conf ''name'' of Some (VStr s) \<Rightarrow> Some s | _ \<Rightarrow> None)"

fun class_of :: "attribute option \<Rightarrow> er_class option" where
  "class_of (Some (Requirement_class cls)) = Some cls"
| "class_of _ = None"

definition entry_class :: "registry \<Rightarrow> pydict \<Rightarrow> er_class option" where
  "entry_class reg conf =
     (case entry_name conf of Some s \<Rightarrow> class_of (module_getattr reg s) | None \<Rightarrow> None)"

text \<open>
  An entry is well named when its name is a string that the module does not bind, or
  binds to a falsy value, or binds to a class with \<open>params()\<close>.
\<close>

fun droppable_or_class :: "attribute option \<Rightarrow> bool" where
  "droppable_or_class None = True"
| "droppable_or_class (Some (Requirement_class cls)) = True"
| "droppable_or_class (Some (Plain_value v)) = (\<not> truthy v)"
| "droppable_or_class (Some Plain_object) = False"

definition well_named :: "registry \<Rightarrow> pydict \<Rightarrow> bool" where
  "well_named reg conf =
     (case entry_name conf of
        Some s \<Rightarrow> droppable_or_class (module_getattr reg s)
      | None \<Rightarrow> False)"

text \<open>
  The translation in the spec's words: the entries that select a class, each with its
  class, in order; and the payloads built from them, each from the entry filtered down
  to the parameter names its class declares, the first error ending the translation.
\<close>

fun selected :: "registry \<Rightarrow> pydict list \<Rightarrow> (er_class \<times> pydict) list" where
  "selected reg [] = []"
| "selected reg (conf # rest) =
     (case entry_class reg conf of
        Some cls \<Rightarrow> (cls, conf) # selected reg rest
      | None \<Rightarrow> selected reg rest)"

fun translate_selected :: "(er_class \<times> pydict) list \<Rightarrow> error + pyval list" where
  "translate_selected [] = Inr []"
| "translate_selected ((cls, conf) # rest) =
     (case er_build cls (conf |` set (er_params cls)) of
        Inl e \<Rightarrow> Inl e
      | Inr d \<Rightarrow>
          (case translate_selected rest of
             Inl e \<Rightarrow> Inl e
           | Inr ds \<Rightarrow> Inr (d # ds)))"

subsection \<open>Example inputs\<close>

definition example_registry :: registry where
  "example_registry =
     (\<lambda>s. if s = ''AgeRangeEligibilityRequirement''
          then Some (Requirement_class
                 \<lparr>er_params = [''min_age'', ''max_age''],
                  er_build = (\<lambda>kw. Inr (VList [dict_get kw ''min_age'',
                                              dict_get kw ''max_age'',
                                              dict_get kw ''name'']))\<rparr>)
          else None)"

definition example_requirements :: "pydict list" where
  "example_requirements =
     [[''name'' \<mapsto> VStr ''NoSuchRequirement'', ''value'' \<mapsto> VInt 1],
      [''name'' \<mapsto> VStr ''AgeRangeEligibilityRequirement'', ''min_age'' \<mapsto> VInt 18,
       ''max_age'' \<mapsto> VInt 65, ''comment'' \<mapsto> VStr ''adults'']]"

definition example_config :: run_config where
  "example_config =
     \<lparr>task = \<lparr>task_title = ''Survey'', task_description = ''Answer ten questions'',
              task_reward = VInt 70\<rparr>,
      provider = \<lparr>prolific_total_available_places = 5,
                  prolific_estimated_completion_time_in_minutes = 10,
                  prolific_external_study_url = ''https://example.org/task'',
                  prolific_id_option = ''url_parameters'',
                  prolific_eligibility_requirements = example_requirements\<rparr>\<rparr>"

section \<open>Properties of the datastore\<close>

lemma select_after_insert_fresh:
  "k \<notin> fst ` set t \<Longrightarrow> select_flag (insert_or_ignore t k v) k = [v]"
  by (induction t) (auto simp: select_flag_def insert_or_ignore_def)

lemma select_after_insert_nonempty:
  "select_flag (insert_or_ignore t k v) k \<noteq> []"
  by (auto simp: select_flag_def insert_or_ignore_def filter_empty_conv)

lemma first_flag_total: "results \<noteq> [] \<Longrightarrow> \<exists>b. first_flag results = Inr b"
  by (cases results) (auto simp: first_flag_def)

lemma key_after_insert: "k \<in> fst ` set (insert_or_ignore t k v)"
  by (auto simp: insert_or_ignore_def)

lemma insert_fresh: "k \<notin> fst ` set t \<Longrightarrow> insert_or_ignore t k v = t @ [(k, v)]"
  by (simp add: insert_or_ignore_def)

lemma read_after_ensure:
  "(\<exists>b. first_flag (select_flag (insert_or_ignore t k (of_pybool False)) k) = Inr b) \<and>
   (k \<notin> fst ` set t \<longrightarrow>
      first_flag (select_flag (insert_or_ignore t k (of_pybool False)) k) = Inr False \<and>
      insert_or_ignore t k (of_pybool False) = t @ [(k, 0)])"
proof (intro conjI impI)
  show "\<exists>b. first_flag (select_flag (insert_or_ignore t k (of_pybool False)) k) = Inr b"
    by (rule first_flag_total) (rule select_after_insert_nonempty)
next
  assume "k \<notin> fst ` set t"
  then show "first_flag (select_flag (insert_or_ignore t k (of_pybool False)) k) = Inr False"
    by (simp add: select_after_insert_fresh first_flag_def of_pybool_def)
next
  assume "k \<notin> fst ` set t"
  then show "insert_or_ignore t k (of_pybool False) = t @ [(k, 0)]"
    by (simp add: insert_fresh of_pybool_def)
qed

lemma requester_read:
  "(\<exists>b. fst (get_requester_registered ds k) = Inr b) \<and>
   snd (get_requester_registered ds k) = ensure_requester_exists ds k \<and>
   k \<in> fst ` set (requesters (snd (get_requester_registered ds k))) \<and>
   (k \<notin> fst ` set (requesters ds) \<longrightarrow>
      get_requester_registered ds k =
        (Inr False, ds\<lparr>requesters := requesters ds @ [(k, 0)]\<rparr>))"
  using read_after_ensure [of "requesters ds" k]
  by (auto simp: get_requester_registered_def ensure_requester_exists_def Let_def key_after_insert)

lemma worker_read:
  "(\<exists>b. fst (get_worker_blocked ds k) = Inr b) \<and>
   snd (get_worker_blocked ds k) = ensure_worker_exists ds k \<and>
   k \<in> fst ` set (workers (snd (get_worker_blocked ds k))) \<and>
   (k \<notin> fst ` set (workers ds) \<longrightarrow>
      get_worker_blocked ds k =
        (Inr False, ds\<lparr>workers := workers ds @ [(k, 0)]\<rparr>))"
  using read_after_ensure [of "workers ds" k]
  by (auto simp: get_worker_blocked_def ensure_worker_exists_def Let_def key_after_insert)

lemma unit_read:
  "(\<exists>b. fst (get_unit_expired ds k) = Inr b) \<and>
   snd (get_unit_expired ds k) = ensure_unit_exists ds k \<and>
   k \<in> fst ` set (units (snd (get_unit_expired ds k))) \<and>
   (k \<notin> fst ` set (units ds) \<longrightarrow>
      get_unit_expired ds k =
        (Inr False, ds\<lparr>units := units ds @ [(k, 0)]\<rparr>))"
  using read_after_ensure [of "units ds" k]
  by (auto simp: get_unit_expired_def ensure_unit_exists_def Let_def key_after_insert)

lemma select_stored_first:
  "map_of t k = Some v \<Longrightarrow> \<exists>rest. select_flag t k = v # rest"
  by (induction t) (auto simp: select_flag_def split: if_splits)

lemma insert_present:
  "map_of t k = Some v \<Longrightarrow> insert_or_ignore t k w = t"
  by (auto simp: insert_or_ignore_def dest: map_of_SomeD intro: rev_image_eqI)

lemma read_stored:
  "map_of t k = Some v \<Longrightarrow> first_flag (select_flag t k) = Inr (v \<noteq> 0)"
  using select_stored_first [of t k v] by (auto simp: first_flag_def)

lemma requester_read_stored:
  "map_of (requesters ds) k = Some v \<Longrightarrow>
   get_requester_registered ds k = (Inr (v \<noteq> 0), ds)"
  by (simp add: get_requester_registered_def ensure_requester_exists_def Let_def
      read_stored insert_present)

lemma worker_read_stored:
  "map_of (workers ds) k = Some v \<Longrightarrow> get_worker_blocked ds k = (Inr (v \<noteq> 0), ds)"
  by (simp add: get_worker_blocked_def ensure_worker_exists_def Let_def
      read_stored insert_present)

lemma unit_read_stored:
  "map_of (units ds) k = Some v \<Longrightarrow> get_unit_expired ds k = (Inr (v \<noteq> 0), ds)"
  by (simp add: get_unit_expired_def ensure_unit_exists_def Let_def
      read_stored insert_present)

text \<open>
  C8: a flag read (\<open>get_requester_registered\<close>, \<open>get_worker_blocked\<close>,
  \<open>get_unit_expired\<close>) never fails, whatever the table holds, because it first ensures
  the row: the datastore it leaves is the one \<open>ensure_*_exists\<close> gives, and the key has
  a row there. For a key that has no row yet, the read returns the default \<open>False\<close> and
  the table has gained exactly the row of the key with the flag 0. For a key that has
  a row, the read returns the stored flag and leaves the datastore as it was.
\<close>

theorem flag_read_fresh_key_default:
  "((\<exists>b. fst (get_requester_registered ds requester_id) = Inr b) \<and>
    snd (get_requester_registered ds requester_id) =
      ensure_requester_exists ds requester_id \<and>
    requester_id \<in> fst ` set (requesters (snd (get_requester_registered ds requester_id))) \<and>
    (requester_id \<notin> fst ` set (requesters ds) \<longrightarrow>
       get_requester_registered ds requester_id =
         (Inr False, ds\<lparr>requesters := requesters ds @ [(requester_id, 0)]\<rparr>)) \<and>
    (\<forall>v. map_of (requesters ds) requester_id = Some v \<longrightarrow>
       get_requester_registered ds requester_id = (Inr (v \<noteq> 0), ds))) \<and>
   ((\<exists>b. fst (get_worker_blocked ds worker_id) = Inr b) \<and>
    snd (get_worker_blocked ds worker_id) = ensure_worker_exists ds worker_id \<and>
    worker_id \<in> fst ` set (workers (snd (get_worker_blocked ds worker_id))) \<and>
    (worker_id \<notin> fst ` set (workers ds) \<longrightarrow>
       get_worker_blocked ds worker_id =
         (Inr False, ds\<lparr>workers := workers ds @ [(worker_id, 0)]\<rparr>)) \<and>
    (\<forall>v. map_of (workers ds) worker_id = Some v \<longrightarrow>
       get_worker_blocked ds worker_id = (Inr (v \<noteq> 0), ds))) \<and>
   ((\<exists>b. fst (get_unit_expired ds unit_id) = Inr b) \<and>
    snd (get_unit_expired ds unit_id) = ensure_unit_exists ds unit_id \<and>
    unit_id \<in> fst ` set (units (snd (get_unit_expired ds unit_id))) \<and>
    (unit_id \<notin> fst ` set (units ds) \<longrightarrow>
       get_unit_expired ds unit_id =
         (Inr False, ds\<lparr>units := units ds @ [(unit_id, 0)]\<rparr>)) \<and>
    (\<forall>v. map_of (units ds) unit_id = Some v \<longrightarrow>
       get_unit_expired ds unit_id = (Inr (v \<noteq> 0), ds)))"
  using requester_read [of ds requester_id] worker_read [of ds worker_id]
    unit_read [of ds unit_id] requester_read_stored [of ds requester_id]
    worker_read_stored [of ds worker_id] unit_read_stored [of ds unit_id]
  by blast

theorem flag_read_fresh_key_default_witness:
  "get_requester_registered init_tables ''r1'' =
     (Inr False, init_tables\<lparr>requesters := [(''r1'', 0)]\<rparr>) \<and>
   get_worker_blocked init_tables ''w1'' =
     (Inr False, init_tables\<lparr>workers := [(''w1'', 0)]\<rparr>) \<and>
   get_unit_expired init_tables ''u1'' =
     (Inr False, init_tables\<lparr>units := [(''u1'', 0)]\<rparr>) \<and>
   get_requester_registered (set_requester_registered init_tables ''r1'' True) ''r1'' =
     (Inr True, set_requester_registered init_tables ''r1'' True)"
proof -
  have e: "requesters init_tables = []" "workers init_tables = []" "units init_tables = []"
    by (simp_all add: init_tables_def)
  have m: "map_of (requesters (set_requester_registered init_tables ''r1'' True)) ''r1'' = Some 1"
    by (simp add: set_requester_registered_def ensure_requester_exists_def Let_def
        insert_or_ignore_def update_flag_def of_pybool_def init_tables_def)
  show ?thesis
    using flag_read_fresh_key_default [of init_tables "''r1''" "''w1''" "''u1''"]
      flag_read_fresh_key_default
        [of "set_requester_registered init_tables ''r1'' True" "''r1''" "''w1''" "''u1''"] m
    by (simp add: e)
qed

lemma runs_with_id_fresh:
  "run_id \<notin> r_run_id ` set t \<Longrightarrow> filter (\<lambda>row. r_run_id row = run_id) t = []"
  by (induction t) auto

text \<open>
  C5: after \<open>register_run\<close> has stored a run, a second \<open>register_run\<close> with the same
  \<open>run_id\<close> and any other arguments raises an error (the uniqueness IntegrityError, or
  OverflowError when the new frame height does not fit a 64-bit integer) and leaves the
  datastore as it was: the run id still has exactly one row, the one of the first
  call.
\<close>

theorem register_run_duplicate_raises:
  assumes "run_id \<notin> r_run_id ` set (runs ds)"
    and "fits_sqlite_integer height"
  shows "fst (register_run ds run_id project_id path height now) = Inr () \<and>
         register_run (snd (register_run ds run_id project_id path height now))
             run_id project_id' path' height' now' =
           (Inl (if fits_sqlite_integer height' then IntegrityError UniqueConstraint
                 else OverflowError),
            snd (register_run ds run_id project_id path height now)) \<and>
         runs_with_id (snd (register_run ds run_id project_id path height now)) run_id =
           [\<lparr>r_run_id = run_id, r_arn_id = ''unused'', r_project_id = project_id,
             r_project_config_path = path, r_creation_date = now,
             r_frame_height = height\<rparr>]"
  using assms by (simp add: register_run_def runs_with_id_def runs_with_id_fresh)

theorem register_run_duplicate_raises_witness:
  "fst (register_run init_tables ''run-1'' ''proj'' ''/tmp/cfg.yaml'' 650 3) = Inr () \<and>
   fst (register_run (snd (register_run init_tables ''run-1'' ''proj'' ''/tmp/cfg.yaml'' 650 3))
          ''run-1'' ''other'' ''/tmp/other.yaml'' 0 4) = Inl (IntegrityError UniqueConstraint) \<and>
   fst (register_run (snd (register_run init_tables ''run-1'' ''proj'' ''/tmp/cfg.yaml'' 650 3))
          ''run-1'' ''other'' ''/tmp/other.yaml'' (2 ^ 63) 4) = Inl OverflowError \<and>
   map r_project_id (runs (snd (register_run
       (snd (register_run init_tables ''run-1'' ''proj'' ''/tmp/cfg.yaml'' 650 3))
          ''run-1'' ''other'' ''/tmp/other.yaml'' 0 4))) = [''proj'']"
proof -
  have h: "''run-1'' \<notin> r_run_id ` set (runs init_tables)" by (simp add: init_tables_def)
  have f: "fits_sqlite_integer 650" "fits_sqlite_integer 0" "\<not> fits_sqlite_integer (2 ^ 63)"
    by (simp_all add: fits_sqlite_integer_def)
  show ?thesis
    using register_run_duplicate_raises [OF h f(1), of "''proj''" "''/tmp/cfg.yaml''" 3
        "''other''" "''/tmp/other.yaml''" 0 4]
      register_run_duplicate_raises [OF h f(1), of "''proj''" "''/tmp/cfg.yaml''" 3
        "''other''" "''/tmp/other.yaml''" "2 ^ 63" 4]
    by (simp add: fits_sqlite_integer_def register_run_def init_tables_def)
qed

text \<open>A frame height outside the 64-bit range stores nothing.\<close>

lemma register_run_overflow:
  "\<not> fits_sqlite_integer height \<Longrightarrow>
   register_run ds run_id project_id path height now = (Inl OverflowError, ds)"
  by (simp add: register_run_def)

lemma filter_name_fresh:
  "n \<notin> q_qualification_name ` set t \<Longrightarrow> filter (\<lambda>row. q_qualification_name row = n) t = []"
  by (induction t) auto

lemma create_fresh:
  assumes "n \<notin> q_qualification_name ` set (qualifications ds)"
  shows "create_qualification_mapping ds n r sn sid now =
           (Inr (), ds\<lparr>qualifications := qualifications ds @ [qualification_row_of n r sn sid now]\<rparr>)"
  using assms by (simp add: create_qualification_mapping_def insert_qualification_def qualification_row_of_def)

lemma create_existing:
  assumes "n \<notin> q_qualification_name ` set t" and "qualifications ds = t @ [qualification_row_of n r sn sid now]"
  shows "create_qualification_mapping ds n r' sn' sid' now' =
           (Inr (), warn_remote_name (warn_requester (log_to ds LDebug
               (''Multiple Surge AI mapping creations for qualification '' @ n @
                ''. Found existing one: <Row>. '')) n r' r) n sn' sn)"
  using assms
  by (simp add: create_qualification_mapping_def insert_qualification_def qualification_row_of_def
      get_qualification_mapping_def filter_name_fresh Let_def)

lemma warnings_simps:
  "warnings (log_to ds LDebug m) = warnings ds"
  "warnings (log_to ds LWarning m) = warnings ds @ [(LWarning, m)]"
  "qualifications (log_to ds l m) = qualifications ds"
  by (simp_all add: warnings_def log_to_def)

text \<open>
  C4: \<open>create_qualification_mapping\<close> is idempotent. For a qualification name that is
  not mapped yet, the first call stores one row. A second call with identical arguments
  returns normally, leaves that row as the only row of the name, and logs no warning.
  A second call that differs in the requester id (the Surge AI name being the same)
  returns normally, leaves the first row unchanged, and logs exactly one warning.
\<close>

theorem create_qualification_mapping_idempotent:
  assumes fresh: "qualification_name \<notin> q_qualification_name ` set (qualifications ds)"
    and first: "create_qualification_mapping ds qualification_name requester_id
                  remote_name remote_id now = (res1, ds1)"
    and same: "create_qualification_mapping ds1 qualification_name requester_id
                  remote_name remote_id now' = (res2, ds2)"
    and other: "create_qualification_mapping ds1 qualification_name requester_id'
                  remote_name remote_id' now' = (res3, ds3)"
    and differs: "requester_id' \<noteq> requester_id"
  shows "res1 = Inr () \<and> res2 = Inr () \<and> res3 = Inr () \<and>
         mappings_named ds2 qualification_name =
           [qualification_row_of qualification_name requester_id remote_name remote_id now] \<and>
         qualifications ds2 = qualifications ds1 \<and>
         warnings ds2 = warnings ds \<and>
         mappings_named ds3 qualification_name =
           [qualification_row_of qualification_name requester_id remote_name remote_id now] \<and>
         qualifications ds3 = qualifications ds1 \<and>
         warnings ds3 = warnings ds1 @
           [(LWarning,
             ''Surge AI Qualification mapping create for '' @ qualification_name @
             '' under requester '' @ requester_id' @
             '', already exists under '' @ requester_id @ ''.'')]"
proof -
  let ?row = "qualification_row_of qualification_name requester_id remote_name remote_id now"
  have ds1: "res1 = Inr ()" "ds1 = ds\<lparr>qualifications := qualifications ds @ [?row]\<rparr>"
    using first by (simp_all add: create_fresh [OF fresh])
  have q1: "qualifications ds1 = qualifications ds @ [?row]" and w1: "warnings ds1 = warnings ds"
    by (simp_all add: ds1 warnings_def)
  have m: "filter (\<lambda>x. q_qualification_name x = qualification_name) (qualifications ds1) = [?row]"
    by (simp add: q1 filter_name_fresh [OF fresh] qualification_row_of_def)
  have s: "res2 = Inr ()" "qualifications ds2 = qualifications ds1" "warnings ds2 = warnings ds1"
    using same unfolding create_existing [OF fresh q1]
    by (auto simp: warn_requester_def warn_remote_name_def warnings_simps)
  have t: "res3 = Inr ()" "qualifications ds3 = qualifications ds1"
      "warnings ds3 = warnings ds1 @ [(LWarning,
          ''Surge AI Qualification mapping create for '' @ qualification_name @
          '' under requester '' @ requester_id' @
          '', already exists under '' @ requester_id @ ''.'')]"
    using other differs unfolding create_existing [OF fresh q1]
    by (auto simp: warn_requester_def warn_remote_name_def warnings_simps)
  show ?thesis
    by (simp add: ds1(1) s t mappings_named_def m w1)
qed

theorem create_qualification_mapping_idempotent_witness:
  "mappings_named
     (snd (create_qualification_mapping
        (snd (create_qualification_mapping init_tables ''q'' ''alice'' ''team'' ''t1'' 5))
        ''q'' ''alice'' ''team'' ''t1'' 6)) ''q'' = [qualification_row_of ''q'' ''alice'' ''team'' ''t1'' 5] \<and>
   warnings
     (snd (create_qualification_mapping
        (snd (create_qualification_mapping init_tables ''q'' ''alice'' ''team'' ''t1'' 5))
        ''q'' ''alice'' ''team'' ''t1'' 6)) = [] \<and>
   length (warnings
     (snd (create_qualification_mapping
        (snd (create_qualification_mapping init_tables ''q'' ''alice'' ''team'' ''t1'' 5))
        ''q'' ''bob'' ''team'' ''t2'' 6))) = 1"
proof -
  have fresh: "''q'' \<notin> q_qualification_name ` set (qualifications init_tables)"
    by (simp add: init_tables_def)
  have differs: "''bob'' \<noteq> ''alice''" by simp
  have w0: "warnings init_tables = []" by (simp add: init_tables_def warnings_def)
  have w1: "warnings (snd (create_qualification_mapping init_tables ''q'' ''alice'' ''team'' ''t1'' 5)) = []"
    unfolding create_fresh [OF fresh] by (simp add: warnings_def init_tables_def)
  show ?thesis
    using create_qualification_mapping_idempotent
      [OF fresh surjective_pairing surjective_pairing surjective_pairing differs,
       of "''team''" "''t1''" 5 6 "''t2''"]
    by (simp add: w0 w1)
qed

text \<open>
  The number of warnings of a conflicting call in general: one for a differing requester
  id and one for a differing Surge AI name.
\<close>

lemma conflict_warning_count:
  assumes fresh: "n \<notin> q_qualification_name ` set (qualifications ds)"
  shows "length (warnings (snd (create_qualification_mapping
            (snd (create_qualification_mapping ds n r sn sid now)) n r' sn' sid' now'))) =
         length (warnings ds) + (if r' \<noteq> r then 1 else 0) + (if sn' \<noteq> sn then 1 else 0)"
proof -
  let ?ds1 = "snd (create_qualification_mapping ds n r sn sid now)"
  have q1: "qualifications ?ds1 = qualifications ds @ [qualification_row_of n r sn sid now]"
    and w1: "warnings ?ds1 = warnings ds"
    by (simp_all add: create_fresh [OF fresh] warnings_def)
  show ?thesis
    unfolding create_existing [OF fresh q1]
    by (simp add: warn_requester_def warn_remote_name_def warnings_simps w1)
qed

section \<open>Properties of the Prolific utilities\<close>

lemmas call_defs = request_def Users_me_call_def Workspaces_retrieve_call_def
  Workspaces_list_call_def Workspaces_create_call_def Projects_list_for_workspace_call_def
  Projects_create_for_workspace_call_def ParticipantGroups_list_call_def
  ParticipantGroups_create_call_def Studies_create_call_def log_and_raise_def

lemma retrieve_snd:
  "snd (Workspaces_retrieve_call c i) = c\<lparr>c_calls := c_calls c @ [Workspaces_retrieve i]\<rparr>"
  by (simp add: Workspaces_retrieve_call_def request_def split: bool.splits option.splits)

lemma retrieve_fst:
  "fst (Workspaces_retrieve_call c i) = Inr w \<Longrightarrow> ws_id w = i"
  by (auto simp: Workspaces_retrieve_call_def request_def find_Some_iff
      split: bool.splits option.splits)

lemma list_projects_snd:
  "snd (Projects_list_for_workspace_call c w) =
     c\<lparr>c_calls := c_calls c @ [Projects_list_for_workspace w]\<rparr>"
  by (simp add: Projects_list_for_workspace_call_def request_def split: bool.splits)

lemma log_and_raise_calls: "c_calls (snd (log_and_raise e c msg)) = c_calls c"
  by (simp add: log_and_raise_def)

lemma log_and_raise_fst: "fst (log_and_raise e c msg) = Inl e"
  by (simp add: log_and_raise_def)

lemma studies_create_snd:
  "c_calls (snd (Studies_create_call c req)) = c_calls c @ [Studies_create req]"
  by (simp add: Studies_create_call_def request_def Let_def split: bool.splits)

lemma studies_create_ok:
  "fst (Studies_create_call c req) = Inr s \<Longrightarrow>
   c_studies (snd (Studies_create_call c req)) = c_studies c @ [s] \<and> st_request s = req"
  by (auto simp: Studies_create_call_def request_def Let_def split: bool.splits)

text \<open>
  C1: with no workspace titled "My Workspace" on the remote and no id given,
  \<open>find_or_create_prolific_workspace\<close> should list once, create once and return the new
  id. The code evaluated on the empty remote: it lists once, returns \<open>None\<close> and creates
  nothing, because the scan reports \<open>(True, None)\<close> for an absent title.
\<close>

theorem find_or_create_workspace_skips_create:
  "fst (find_or_create_prolific_workspace (remote_with VNone [] [] []) None ''My Workspace'')
     = Inr None \<and>
   c_calls (snd (find_or_create_prolific_workspace (remote_with VNone [] [] []) None
       ''My Workspace'')) = [Workspaces_list] \<and>
   c_workspaces (snd (find_or_create_prolific_workspace (remote_with VNone [] [] []) None
       ''My Workspace'')) = []"
  by (simp add: find_or_create_prolific_workspace_def find_prolific_workspace_def
      remote_with_def call_defs)

text \<open>Without an id, no remote state makes the function issue a create call.\<close>

lemma scan_workspaces_found: "fst (scan_workspaces ws title) = True"
  by (induction ws) auto

lemma find_or_create_workspace_never_creates:
  "Workspaces_create t \<notin> set (c_calls c) \<Longrightarrow>
   Workspaces_create t \<notin> set (c_calls (snd (find_or_create_prolific_workspace c None title)))"
  using scan_workspaces_found [of "c_workspaces c" title]
  by (auto simp: find_or_create_prolific_workspace_def find_prolific_workspace_def
      call_defs split: prod.splits sum.splits bool.splits if_splits)

text \<open>
  C2: when no id is given and no listed entry carries the requested key, find should
  report \<open>found = False\<close> with no id. The code evaluated on the empty remote: the
  workspace and the qualification find report \<open>(True, None)\<close>; only the project find
  reports \<open>(False, None)\<close>.
\<close>

theorem absent_key_reported_found:
  "fst (find_prolific_workspace (remote_with VNone [] [] []) None ''My Workspace'')
     = Inr (True, None) \<and>
   fst (find_qualification (remote_with VNone [] [] []) ''p1'' ''adults'')
     = Inr (True, None) \<and>
   fst (find_prolific_project (remote_with VNone [] [] []) ''w1'' None ''Project'')
     = Inr (False, None)"
  by (simp add: find_prolific_workspace_def find_qualification_def find_prolific_project_def
      remote_with_def call_defs)

lemma scan_projects_find:
  "ident \<noteq> [] \<Longrightarrow>
   scan_projects ps (Some ident) title =
     (case List.find (\<lambda>p. pj_id p = ident \<or> pj_title p = title) ps of
        None \<Rightarrow> (False, None)
      | Some p \<Rightarrow> (True, Some (pj_id p)))"
  by (induction ps) auto

text \<open>
  C3, as the code has it: with a non-empty id, the workspace find issues exactly the
  retrieve request for that id, a failed retrieval is the error of the find, and the find
  never reports \<open>found = False\<close>. The project find issues no retrieve request: it lists
  the projects of the workspace once, a failed list request is the error of the find,
  and otherwise it reports the first listed project whose id is the given id or whose
  title is the given title, and \<open>(False, None)\<close> when there is none.
\<close>

theorem id_hint_lookup:
  assumes "ident \<noteq> []"
  shows "c_calls (snd (find_prolific_workspace c (Some ident) title)) =
           c_calls c @ [Workspaces_retrieve ident] \<and>
         fst (find_prolific_workspace c (Some ident) title) =
           (case fst (Workspaces_retrieve_call c ident) of
              Inl e \<Rightarrow> Inl e
            | Inr w \<Rightarrow> Inr (True, Some ident)) \<and>
         (\<forall>r. fst (find_prolific_workspace c (Some ident) title) \<noteq> Inr (False, r)) \<and>
         c_calls (snd (find_prolific_project c workspace_id (Some ident) title)) =
           c_calls c @ [Projects_list_for_workspace workspace_id] \<and>
         fst (find_prolific_project c workspace_id (Some ident) title) =
           (case fst (Projects_list_for_workspace_call c workspace_id) of
              Inl e \<Rightarrow> Inl e
            | Inr ps \<Rightarrow>
                (case List.find (\<lambda>p. pj_id p = ident \<or> pj_title p = title) ps of
                   None \<Rightarrow> Inr (False, None)
                 | Some p \<Rightarrow> Inr (True, Some (pj_id p))))"
proof -
  have w: "c_calls (snd (find_prolific_workspace c (Some ident) title)) =
           c_calls c @ [Workspaces_retrieve ident]"
    using assms retrieve_snd [of c ident]
    by (simp add: find_prolific_workspace_def case_prod_beta log_and_raise_calls
        split: sum.splits)
  have r: "fst (find_prolific_workspace c (Some ident) title) =
           (case fst (Workspaces_retrieve_call c ident) of
              Inl e \<Rightarrow> Inl e
            | Inr w \<Rightarrow> Inr (True, Some ident))"
    using assms
    by (auto simp: find_prolific_workspace_def case_prod_beta log_and_raise_fst
        split: sum.splits dest: retrieve_fst)
  have n: "\<forall>r. fst (find_prolific_workspace c (Some ident) title) \<noteq> Inr (False, r)"
    unfolding r by (simp split: sum.splits)
  have p: "c_calls (snd (find_prolific_project c workspace_id (Some ident) title)) =
           c_calls c @ [Projects_list_for_workspace workspace_id]"
    using list_projects_snd [of c workspace_id]
    by (simp add: find_prolific_project_def case_prod_beta log_and_raise_calls
        split: sum.splits)
  have q: "fst (find_prolific_project c workspace_id (Some ident) title) =
           (case fst (Projects_list_for_workspace_call c workspace_id) of
              Inl e \<Rightarrow> Inl e
            | Inr ps \<Rightarrow>
                (case List.find (\<lambda>p. pj_id p = ident \<or> pj_title p = title) ps of
                   None \<Rightarrow> Inr (False, None)
                 | Some p \<Rightarrow> Inr (True, Some (pj_id p))))"
    by (simp add: find_prolific_project_def case_prod_beta log_and_raise_fst
        scan_projects_find [OF assms] split: sum.splits option.splits)
  show ?thesis using w r n p q by blast
qed

theorem id_hint_lookup_witness:
  "fst (find_prolific_workspace (remote_with VNone [] [] []) (Some ''w7'') ''My Workspace'')
     = Inl ProlificException \<and>
   c_calls (snd (find_prolific_workspace (remote_with VNone [] [] []) (Some ''w7'')
      ''My Workspace'')) = [Workspaces_retrieve ''w7''] \<and>
   fst (find_prolific_project (remote_with VNone [] [] []) ''w1'' (Some ''p9'') ''Project'')
     = Inr (False, None)"
proof -
  have h: "''w7'' \<noteq> []" by simp
  have h': "''p9'' \<noteq> []" by simp
  show ?thesis
    using id_hint_lookup [OF h, where c = "remote_with VNone [] [] []"
          and title = "''My Workspace''" and workspace_id = "''w1''"]
      id_hint_lookup [OF h', where c = "remote_with VNone [] [] []"
          and title = "''Project''" and workspace_id = "''w1''"]
    by (simp add: remote_with_def call_defs)
qed

text \<open>
  An id that no project of the workspace carries: the project find issues the list
  request only and reports absence.
\<close>

theorem project_id_hint_counterexample:
  "fst (find_prolific_project
          (remote_with VNone [\<lparr>ws_id = ''w1'', ws_title = ''My Workspace''\<rparr>]
             [\<lparr>pj_id = ''p1'', pj_title = ''Survey'', pj_workspace = ''w1''\<rparr>] [])
          ''w1'' (Some ''p9'') ''Project'') = Inr (False, None) \<and>
   c_calls (snd (find_prolific_project
          (remote_with VNone [\<lparr>ws_id = ''w1'', ws_title = ''My Workspace''\<rparr>]
             [\<lparr>pj_id = ''p1'', pj_title = ''Survey'', pj_workspace = ''w1''\<rparr>] [])
          ''w1'' (Some ''p9'') ''Project'')) = [Projects_list_for_workspace ''w1'']"
  by (simp add: find_prolific_project_def remote_with_def call_defs)

text \<open>
  C6: \<open>delete_qualification\<close> returns \<open>True\<close> for every id and every client state,
  issues no request and changes nothing; it has no error result.
\<close>

theorem delete_qualification_noop:
  "fst (delete_qualification c ident) = True \<and>
   c_calls (snd (delete_qualification c ident)) = c_calls c \<and>
   snd (delete_qualification c ident) = c"
  by (simp add: delete_qualification_def)

text \<open>
  C9: when the user record is received, \<open>check_balance\<close> returns its
  \<open>available_balance\<close> if that is truthy and the default budget 100000.0 if it is falsy;
  a balance of exactly 0 is reported as 100000.0.
\<close>

theorem check_balance_falsy_default:
  assumes "Users_me_call c = (Inr u, c1)"
  shows "(truthy (available_balance u) \<longrightarrow>
            check_balance c = (Inr (available_balance u), c1)) \<and>
         (\<not> truthy (available_balance u) \<longrightarrow>
            check_balance c = (Inr (VFloat 100000), c1)) \<and>
         (available_balance u = VInt 0 \<longrightarrow> check_balance c = (Inr (VFloat 100000), c1)) \<and>
         (available_balance u = VFloat 0 \<longrightarrow> check_balance c = (Inr (VFloat 100000), c1))"
  using assms by (auto simp: check_balance_def DEFAULT_PROLIFIC_BUDGET_def)

theorem check_balance_falsy_default_witness:
  "check_balance (remote_with (VInt 0) [] [] []) =
     (Inr (VFloat 100000), (remote_with (VInt 0) [] [] [])\<lparr>c_calls := [Users_me]\<rparr>) \<and>
   check_balance (remote_with (VInt 250) [] [] []) =
     (Inr (VInt 250), (remote_with (VInt 250) [] [] [])\<lparr>c_calls := [Users_me]\<rparr>)"
proof -
  have a: "Users_me_call (remote_with (VInt 0) [] [] []) =
      (Inr \<lparr>available_balance = VInt 0\<rparr>, (remote_with (VInt 0) [] [] [])\<lparr>c_calls := [Users_me]\<rparr>)"
    by (simp add: remote_with_def call_defs)
  have b: "Users_me_call (remote_with (VInt 250) [] [] []) =
      (Inr \<lparr>available_balance = VInt 250\<rparr>, (remote_with (VInt 250) [] [] [])\<lparr>c_calls := [Users_me]\<rparr>)"
    by (simp add: remote_with_def call_defs)
  show ?thesis
    using check_balance_falsy_default [OF a] check_balance_falsy_default [OF b] by simp
qed

lemma collect_kwargs_restrict:
  "collect_kwargs ps conf kw = kw ++ (conf |` set ps)"
proof (induction ps arbitrary: kw)
  case Nil
  then show ?case by simp
next
  case (Cons p ps)
  show ?case
    by (cases "conf p") (auto simp: Cons.IH map_add_def restrict_map_def fun_eq_iff split: option.splits)
qed

lemma cls_kwargs_restrict: "collect_kwargs ps conf Map.empty = conf |` set ps"
  by (simp add: collect_kwargs_restrict)

lemma named_getattr:
  "entry_name conf = Some s \<Longrightarrow>
   getattr_or_none reg (dict_get conf ''name'') = Inr (module_getattr reg s)"
  by (auto simp: entry_name_def dict_get_def split: option.splits pyval.splits)

lemma named_class:
  "entry_name conf = Some s \<Longrightarrow> entry_class reg conf = class_of (module_getattr reg s)"
  by (simp add: entry_class_def)

text \<open>The list built so far is only ever extended.\<close>

lemma eligibility_loop_acc:
  "eligibility_loop reg confs acc =
     (case eligibility_loop reg confs [] of Inl e \<Rightarrow> Inl e | Inr out \<Rightarrow> Inr (acc @ out))"
proof (induction confs arbitrary: acc)
  case Nil
  then show ?case by simp
next
  case (Cons conf confs)
  note IH = Cons.IH
  show ?case
  proof (cases "getattr_or_none reg (dict_get conf ''name'')")
    case (Inl e)
    then show ?thesis by simp
  next
    case (Inr found)
    show ?thesis
    proof (cases found)
      case None
      with Inr show ?thesis using IH [of acc] by simp
    next
      case (Some a)
      show ?thesis
      proof (cases "attribute_truthy a")
        case False
        with Inr Some show ?thesis using IH [of acc] by simp
      next
        case True
        show ?thesis
        proof (cases "params_of a")
          case (Inl e)
          with Inr Some True show ?thesis by simp
        next
          case cls: (Inr cls)
          show ?thesis
          proof (cases "er_build cls (collect_kwargs (er_params cls) conf Map.empty)")
            case (Inl e)
            with Inr Some True cls show ?thesis by simp
          next
            case d: (Inr d)
            have "eligibility_loop reg (conf # confs) acc =
                    eligibility_loop reg confs (acc @ [d])"
              using Inr Some True cls d by simp
            moreover have "eligibility_loop reg (conf # confs) [] =
                    eligibility_loop reg confs [d]"
              using Inr Some True cls d by simp
            ultimately show ?thesis
              using IH [of "acc @ [d]"] IH [of "[d]"]
              by (simp split: sum.splits)
          qed
        qed
      qed
    qed
  qed
qed

lemma well_named_cases:
  assumes "well_named reg conf"
  obtains s where "entry_name conf = Some s" "module_getattr reg s = None"
  | s cls where "entry_name conf = Some s" "module_getattr reg s = Some (Requirement_class cls)"
  | s v where "entry_name conf = Some s" "module_getattr reg s = Some (Plain_value v)" "\<not> truthy v"
proof -
  from assms obtain s where s: "entry_name conf = Some s"
    and d: "droppable_or_class (module_getattr reg s)"
    by (auto simp: well_named_def split: option.splits)
  show ?thesis
  proof (cases "module_getattr reg s")
    case None
    with s that(1) show ?thesis by blast
  next
    case (Some a)
    with d s that(2,3) show ?thesis by (cases a) auto
  qed
qed

lemma loop_translates_selected:
  "list_all (well_named reg) confs \<Longrightarrow>
   eligibility_loop reg confs [] = translate_selected (selected reg confs)"
proof (induction confs)
  case Nil
  then show ?case by simp
next
  case (Cons conf confs)
  then have wn: "well_named reg conf"
    and IH: "eligibility_loop reg confs [] = translate_selected (selected reg confs)"
    by simp_all
  from wn show ?case
  proof (cases rule: well_named_cases)
    case (1 s)
    then show ?thesis by (simp add: named_getattr named_class IH)
  next
    case (2 s cls)
    then show ?thesis
      using eligibility_loop_acc [of reg confs "[d]" for d]
      by (simp add: named_getattr named_class IH cls_kwargs_restrict split: sum.splits)
  next
    case (3 s v)
    then show ?thesis by (simp add: named_getattr named_class IH)
  qed
qed

lemma selected_filter:
  "selected reg (filter (\<lambda>conf. entry_class reg conf \<noteq> None) confs) = selected reg confs"
  by (induction confs) (auto split: option.splits)

lemma selected_none:
  "list_all (\<lambda>conf. entry_class reg conf = None) confs \<Longrightarrow> selected reg confs = []"
  by (induction confs) auto

lemma well_named_filter:
  "list_all (well_named reg) confs \<Longrightarrow> list_all (well_named reg) (filter P confs)"
  by (induction confs) auto

lemma translate_selected_builds:
  "translate_selected sel = Inr out \<Longrightarrow>
   list_all2 (\<lambda>(cls, conf) d. er_build cls (conf |` set (er_params cls)) = Inr d) sel out"
  by (induction sel arbitrary: out) (auto split: sum.splits)

lemma example_requirements_value:
  "get_eligibility_requirements example_registry example_requirements =
     Inr [VList [VInt 18, VInt 65, VNone]]"
  by (simp add: get_eligibility_requirements_def example_registry_def
      example_requirements_def dict_get_def module_getattr_def MODULE_OBJECT_ATTRIBUTES_def)

text \<open>
  C7, as the code has it: for a configuration list whose entries are each well named
  (the \<open>name\<close> is a string that the module does not bind, or binds to a falsy value, or
  binds to a class with \<open>params()\<close>), the entries whose name selects no class are
  dropped without an error: the translation of the list is the translation of the list
  without them, and it is the empty list when no entry selects a class. The output is
  built, in order, from the entries that select a class, each from the entry restricted
  to the parameter names the class declares; the first constructor error is the error
  of the translation.
\<close>

theorem unregistered_requirements_dropped:
  assumes "list_all (well_named reg) confs"
  shows "get_eligibility_requirements reg confs = translate_selected (selected reg confs) \<and>
         get_eligibility_requirements reg confs =
           get_eligibility_requirements reg
             (filter (\<lambda>conf. entry_class reg conf \<noteq> None) confs) \<and>
         (list_all (\<lambda>conf. entry_class reg conf = None) confs \<longrightarrow>
            get_eligibility_requirements reg confs = Inr []) \<and>
         (\<forall>out. get_eligibility_requirements reg confs = Inr out \<longrightarrow>
            list_all2 (\<lambda>(cls, conf) d. er_build cls (conf |` set (er_params cls)) = Inr d)
              (selected reg confs) out)"
proof -
  have a: "get_eligibility_requirements reg confs = translate_selected (selected reg confs)"
    unfolding get_eligibility_requirements_def by (rule loop_translates_selected [OF assms])
  have "get_eligibility_requirements reg
             (filter (\<lambda>conf. entry_class reg conf \<noteq> None) confs) =
        translate_selected (selected reg confs)"
    unfolding get_eligibility_requirements_def
    using loop_translates_selected
      [OF well_named_filter [OF assms, of "\<lambda>conf. entry_class reg conf \<noteq> None"]]
    by (simp only: selected_filter)
  with a have b: "get_eligibility_requirements reg confs =
           get_eligibility_requirements reg
             (filter (\<lambda>conf. entry_class reg conf \<noteq> None) confs)"
    by simp
  have c: "list_all (\<lambda>conf. entry_class reg conf = None) confs \<longrightarrow>
            get_eligibility_requirements reg confs = Inr []"
    by (simp add: a selected_none)
  have d: "\<forall>out. get_eligibility_requirements reg confs = Inr out \<longrightarrow>
            list_all2 (\<lambda>(cls, conf) d. er_build cls (conf |` set (er_params cls)) = Inr d)
              (selected reg confs) out"
    unfolding a by (blast intro: translate_selected_builds)
  show ?thesis using a b c d by blast
qed

theorem unregistered_requirements_dropped_witness:
  "list_all (well_named example_registry) example_requirements \<and>
   get_eligibility_requirements example_registry example_requirements =
     get_eligibility_requirements example_registry (tl example_requirements) \<and>
   get_eligibility_requirements example_registry example_requirements =
     Inr [VList [VInt 18, VInt 65, VNone]]"
proof -
  have h: "list_all (well_named example_registry) example_requirements"
    by (simp add: example_requirements_def well_named_def entry_name_def example_registry_def
        module_getattr_def MODULE_OBJECT_ATTRIBUTES_def)
  have f: "filter (\<lambda>conf. entry_class example_registry conf \<noteq> None) example_requirements =
           tl example_requirements"
    by (simp add: example_requirements_def entry_class_def entry_name_def example_registry_def
        module_getattr_def MODULE_OBJECT_ATTRIBUTES_def)
  from unregistered_requirements_dropped [OF h]
  have "get_eligibility_requirements example_registry example_requirements =
          get_eligibility_requirements example_registry
            (filter (\<lambda>conf. entry_class example_registry conf \<noteq> None) example_requirements)"
    by blast
  then have d: "get_eligibility_requirements example_registry example_requirements =
          get_eligibility_requirements example_registry (tl example_requirements)"
    by (simp only: f)
  show ?thesis
    using h d example_requirements_value by blast
qed

text \<open>
  Outside the well-named lists the translation raises: the name \<open>__name__\<close> selects no
  class, yet the module binds it to its own name and \<open>cls.params()\<close> raises
  AttributeError; an entry without a \<open>name\<close> makes \<open>getattr\<close> raise TypeError.
\<close>

theorem unregistered_name_counterexample:
  "get_eligibility_requirements example_registry [[''name'' \<mapsto> VStr ''__name__'']] =
     Inl AttributeError \<and>
   module_getattr example_registry ''__name__'' =
     Some (Plain_value (VStr ELIGIBILITY_MODULE_NAME)) \<and>
   get_eligibility_requirements example_registry [[''value'' \<mapsto> VInt 1]] = Inl TypeError"
  by (simp add: get_eligibility_requirements_def dict_get_def module_getattr_def
      ELIGIBILITY_MODULE_NAME_def)

lemma nameless_entry_raises:
  "conf ''name'' = None \<Longrightarrow> get_eligibility_requirements reg (conf # rest) = Inl TypeError"
  by (simp add: get_eligibility_requirements_def dict_get_def)

lemma module_name_entry_raises:
  "conf ''name'' = Some (VStr ''__name__'') \<Longrightarrow>
   get_eligibility_requirements reg (conf # rest) = Inl AttributeError"
  by (simp add: get_eligibility_requirements_def dict_get_def module_getattr_def
      ELIGIBILITY_MODULE_NAME_def)

text \<open>
  C10: for every run configuration, the study request that \<open>create_task\<close> issues carries
  the fixed completion-code list (one code \<open>ABC123\<close> of type OTHER with the single action
  AUTOMATICALLY-APPROVE) and the task title as \<open>internal_name\<close>, and a study that is
  created is stored with that request. When translating the eligibility requirements
  raises, no request is issued.
\<close>

theorem create_task_fixed_completion_codes:
  "(\<forall>ers. get_eligibility_requirements reg
            (prolific_eligibility_requirements (provider cfg)) = Inr ers \<longrightarrow>
      (\<exists>req. c_calls (snd (create_task reg c cfg project_id)) =
               c_calls c @ [Studies_create req] \<and>
             sr_completion_codes req =
               [\<lparr>cc_code = ''ABC123'', cc_code_type = OTHER,
                 cc_actions = [\<lparr>ca_action = AUTOMATICALLY_APPROVE\<rparr>]\<rparr>] \<and>
             sr_internal_name req = task_title (task cfg) \<and>
             (\<forall>sid. fst (create_task reg c cfg project_id) = Inr sid \<longrightarrow>
                c_studies (snd (create_task reg c cfg project_id)) =
                  c_studies c @ [\<lparr>st_id = sid, st_request = req\<rparr>]))) \<and>
   (\<forall>e. get_eligibility_requirements reg
            (prolific_eligibility_requirements (provider cfg)) = Inl e \<longrightarrow>
      create_task reg c cfg project_id = (Inl e, c))"
proof (intro conjI allI impI)
  fix ers
  assume ok: "get_eligibility_requirements reg
            (prolific_eligibility_requirements (provider cfg)) = Inr ers"
  let ?req = "\<lparr>sr_project = project_id,
                sr_name = task_title (task cfg),
                sr_internal_name = task_title (task cfg),
                sr_description = task_description (task cfg),
                sr_external_study_url = prolific_external_study_url (provider cfg),
                sr_prolific_id_option = prolific_id_option (provider cfg),
                sr_completion_option = CODE,
                sr_completion_codes = completion_codes,
                sr_total_available_places = prolific_total_available_places (provider cfg),
                sr_estimated_completion_time =
                  prolific_estimated_completion_time_in_minutes (provider cfg),
                sr_reward = task_reward (task cfg),
                sr_eligibility_requirements = ers\<rparr>"
  have calls: "c_calls (snd (create_task reg c cfg project_id)) =
               c_calls c @ [Studies_create ?req]"
    using studies_create_snd [of c ?req]
    by (simp add: create_task_def Let_def ok case_prod_beta log_and_raise_calls split: sum.splits)
  have stored: "\<forall>sid. fst (create_task reg c cfg project_id) = Inr sid \<longrightarrow>
                c_studies (snd (create_task reg c cfg project_id)) =
                  c_studies c @ [\<lparr>st_id = sid, st_request = ?req\<rparr>]"
    using studies_create_ok [of c ?req]
    by (auto simp: create_task_def Let_def ok case_prod_beta log_and_raise_fst split: sum.splits)
  show "\<exists>req. c_calls (snd (create_task reg c cfg project_id)) =
               c_calls c @ [Studies_create req] \<and>
             sr_completion_codes req =
               [\<lparr>cc_code = ''ABC123'', cc_code_type = OTHER,
                 cc_actions = [\<lparr>ca_action = AUTOMATICALLY_APPROVE\<rparr>]\<rparr>] \<and>
             sr_internal_name req = task_title (task cfg) \<and>
             (\<forall>sid. fst (create_task reg c cfg project_id) = Inr sid \<longrightarrow>
                c_studies (snd (create_task reg c cfg project_id)) =
                  c_studies c @ [\<lparr>st_id = sid, st_request = req\<rparr>])"
    using calls stored by (intro exI [of _ ?req]) (simp add: completion_codes_def)
next
  fix e
  assume "get_eligibility_requirements reg
            (prolific_eligibility_requirements (provider cfg)) = Inl e"
  then show "create_task reg c cfg project_id = (Inl e, c)"
    by (simp add: create_task_def Let_def)
qed

theorem create_task_fixed_completion_codes_witness:
  "fst (create_task example_registry (remote_with VNone [] [] []) example_config ''p1'')
     = Inr ''id-'' \<and>
   map sr_completion_codes (map st_request (c_studies (snd (create_task example_registry
       (remote_with VNone [] [] []) example_config ''p1'')))) =
     [[\<lparr>cc_code = ''ABC123'', cc_code_type = OTHER,
        cc_actions = [\<lparr>ca_action = AUTOMATICALLY_APPROVE\<rparr>]\<rparr>]] \<and>
   map sr_internal_name (map st_request (c_studies (snd (create_task example_registry
       (remote_with VNone [] [] []) example_config ''p1'')))) = [''Survey'']"
proof -
  have ers: "get_eligibility_requirements example_registry
       (prolific_eligibility_requirements (provider example_config)) =
     Inr [VList [VInt 18, VInt 65, VNone]]"
    by (simp add: example_config_def example_requirements_value)
  have r: "fst (create_task example_registry (remote_with VNone [] [] []) example_config ''p1'')
     = Inr ''id-''"
    by (simp add: create_task_def Let_def ers)
       (simp add: example_config_def remote_with_def call_defs Let_def)
  have s: "c_studies (remote_with VNone [] [] []) = []" by (simp add: remote_with_def)
  have t: "task_title (task example_config) = ''Survey''" by (simp add: example_config_def)
  from create_task_fixed_completion_codes
    [of example_registry example_config "remote_with VNone [] [] []" "''p1''"] ers r
  show ?thesis by (auto simp: s t)
qed

end
